theory Spec2Isabelle
  imports Complex_Main "HOL-Library.AList"
begin

section \<open>Arrays, numbers and errors\<close>

text \<open>
  The three modules verified here are \<^verbatim>\<open>src/models/similarity.py\<close>,
  \<^verbatim>\<open>src/models/index_builder.py\<close> and \<^verbatim>\<open>src/models/recommender.py\<close>.

  Modelling decisions that hold for the whole development:
  \<^item> A NumPy \<^verbatim>\<open>float64\<close> is a \<^typ>\<open>real\<close>: arithmetic is exact, rounding, infinities and
    NaN inside an array are not represented, so a statement that two computed numbers are
    equal is about the exact values, not about the rounded ones the program holds. A
    missing cell of a data frame (NaN) is \<^term>\<open>None\<close> of a \<^typ>\<open>real option\<close>.
  \<^item> A one-dimensional array is a list, a two-dimensional array is the list of its rows.
    An array with zero rows is \<^term>\<open>[]\<close>; its column count is then not represented.
  \<^item> A Python exception is a value of \<open>error\<close>, returned as \<^term>\<open>Inl\<close>.
    \<open>KeyError\<close> is what pandas raises on a missing column, \<open>ValueError\<close> what
    scikit-learn's input validation and NumPy's broadcasting raise, \<open>IndexError\<close> what
    NumPy and pandas raise on a position out of range, \<open>FileNotFoundError\<close> what opening
    an absent file raises, \<open>DecodeError\<close> what \<^verbatim>\<open>np.load\<close> and \<^verbatim>\<open>json.load\<close> raise on a
    file that does not hold an array or a JSON document (a \<^verbatim>\<open>ValueError\<close>, its subclass
    \<^verbatim>\<open>JSONDecodeError\<close>, an \<^verbatim>\<open>EOFError\<close>), \<open>AttributeError\<close> what reading a scaler that
    was never fitted raises.
\<close>

datatype error =
  ValueError | KeyError | IndexError | FileNotFoundError | DecodeError | AttributeError

type_synonym vector = "real list"
type_synonym matrix = "real list list"

text \<open>
  NumPy broadcasting of a binary operation over two one-dimensional arrays: equal lengths
  combine element-wise, an array of length one is stretched, anything else raises.
\<close>

definition broadcast2 :: "(real \<Rightarrow> real \<Rightarrow> real) \<Rightarrow> vector \<Rightarrow> vector \<Rightarrow> error + vector" where
  "broadcast2 f a b =
     (if length a = length b then Inr (map2 f a b)
      else if length b = 1 then Inr (map (\<lambda>x. f x (hd b)) a)
      else if length a = 1 then Inr (map (\<lambda>y. f (hd a) y) b)
      else Inl ValueError)"

text \<open>\<^verbatim>\<open>matrix * weights\<close>: the one-dimensional array is broadcast against every row.\<close>

fun mul_rows :: "matrix \<Rightarrow> vector \<Rightarrow> error + matrix" where
  "mul_rows [] ws = Inr []"
| "mul_rows (r # rs) ws =
     (case broadcast2 (*) r ws of
        Inl e \<Rightarrow> Inl e
      | Inr r' \<Rightarrow> (case mul_rows rs ws of Inl e \<Rightarrow> Inl e | Inr rs' \<Rightarrow> Inr (r' # rs')))"

text \<open>Python's \<^verbatim>\<open>xs[:k]\<close>: a negative stop counts from the end.\<close>

definition py_take :: "int \<Rightarrow> 'a list \<Rightarrow> 'a list" where
  "py_take k xs =
     (if 0 \<le> k then take (nat k) xs else take (nat (int (length xs) + k)) xs)"

text \<open>
  A NumPy position into an axis of length \<open>n\<close>: a negative position counts from the end,
  a position outside \<open>[-n, n)\<close> is out of bounds (\<^term>\<open>None\<close>).
\<close>

definition py_index :: "nat \<Rightarrow> int \<Rightarrow> nat option" where
  "py_index n i =
     (if 0 \<le> i \<and> i < int n then Some (nat i)
      else if i < 0 \<and> 0 \<le> int n + i then Some (nat (int n + i))
      else None)"

text \<open>\<^verbatim>\<open>a[indices] = v\<close> for a list of integer positions; \<open>IndexError\<close> when one is out of bounds.\<close>

fun assign_indices :: "vector \<Rightarrow> int list \<Rightarrow> real \<Rightarrow> error + vector" where
  "assign_indices s [] v = Inr s"
| "assign_indices s (i # js) v =
     (case py_index (length s) i of
        None \<Rightarrow> Inl IndexError
      | Some j \<Rightarrow> assign_indices (s[j := v]) js v)"

text \<open>
  \<^verbatim>\<open>np.argsort(a)\<close> returns the positions of \<open>a\<close> in ascending order of their values.
  The source calls it with the default sort kind, which NumPy documents as not stable and
  implements differently from one platform and release to the next: the order it gives to
  positions of equal value is not fixed by the source. The sort is therefore an argument
  of every function that calls it, and \<open>is_argsort\<close> says what NumPy promises of it: on
  every array, each position once, in ascending order of the values.
\<close>

definition is_argsort :: "(vector \<Rightarrow> nat list) \<Rightarrow> bool" where
  "is_argsort argsort =
     (\<forall>a. set (argsort a) = {0..<length a} \<and> distinct (argsort a)
          \<and> sorted (map (\<lambda>i. a ! i) (argsort a)))"

text \<open>
  Two sorts that keep the promise. The first is the insertion sort of NumPy's scalar code
  for short arrays: equal values stay in position order. The second puts equal values in
  the opposite order.
\<close>

definition insertion_argsort :: "vector \<Rightarrow> nat list" where
  "insertion_argsort a = sort_key (\<lambda>i. a ! i) [0..<length a]"

definition descending_tie_argsort :: "vector \<Rightarrow> nat list" where
  "descending_tie_argsort a = sort_key (\<lambda>i. a ! i) (rev [0..<length a])"

section \<open>Similarity engine (\<^verbatim>\<open>similarity.py\<close>)\<close>

type_synonym weight_table = "(string \<times> real) list"

definition get_default_weights :: weight_table where
  "get_default_weights =
     [(''danceability'', 2), (''energy'', 2), (''valence'', 2), (''tempo_normalized'', 2),
      (''acousticness'', 3 / 2), (''instrumentalness'', 3 / 2), (''loudness_normalized'', 1),
      (''speechiness'', 1 / 2), (''liveness'', 1 / 2), (''mode'', 3 / 10), (''key'', 3 / 10),
      (''mood_score'', 5 / 2), (''energy_danceability'', 2), (''vocal_presence'', 1),
      (''intensity'', 3 / 2), (''chill_factor'', 3 / 2), (''track_age_normalized'', 1 / 2)]"

text \<open>
  \<^verbatim>\<open>SimilarityComputer.__init__\<close>: \<^verbatim>\<open>feature_weights or self._get_default_weights()\<close>;
  \<^verbatim>\<open>None\<close> and the empty dictionary are both falsy. The object's only field is the
  weight table, a dictionary kept as an association list read with \<^const>\<open>map_of\<close>.
\<close>

definition new_similarity_computer :: "weight_table option \<Rightarrow> weight_table" where
  "new_similarity_computer feature_weights =
     (case feature_weights of
        None \<Rightarrow> get_default_weights
      | Some w \<Rightarrow> if w = [] then get_default_weights else w)"

text \<open>\<^verbatim>\<open>self.feature_weights.get(name, 1.0)\<close>\<close>

definition weight_of :: "weight_table \<Rightarrow> string \<Rightarrow> real" where
  "weight_of fw name = (case map_of fw name of None \<Rightarrow> 1 | Some w \<Rightarrow> w)"

text \<open>
  \<^verbatim>\<open>apply_weights\<close>. The products are exact here; the program rounds each of them to a
  \<^verbatim>\<open>float64\<close>.
\<close>

definition apply_weights :: "weight_table \<Rightarrow> matrix \<Rightarrow> string list \<Rightarrow> error + matrix" where
  "apply_weights fw feature_matrix feature_names =
     mul_rows feature_matrix (map (weight_of fw) feature_names)"

text \<open>
  scikit-learn's \<^verbatim>\<open>cosine_similarity(X, Y)\<close>: both arguments are validated (at least one
  row, at least one column, the same number of columns, else \<open>ValueError\<close>), every row is
  divided by its Euclidean norm, a zero norm being replaced by one, and the dot products of
  the normalised rows are returned.
\<close>

definition l2_norm :: "vector \<Rightarrow> real" where
  "l2_norm v = sqrt (sum_list (map (\<lambda>x. x * x) v))"

definition normalize_row :: "vector \<Rightarrow> vector" where
  "normalize_row v = (let n = l2_norm v in map (\<lambda>x. x / (if n = 0 then 1 else n)) v)"

definition dot :: "vector \<Rightarrow> vector \<Rightarrow> real" where
  "dot a b = sum_list (map2 (*) a b)"

definition compute_similarity :: "vector \<Rightarrow> matrix \<Rightarrow> error + vector" where
  "compute_similarity query_vector feature_matrix =
     (if feature_matrix = [] \<or> query_vector = []
         \<or> \<not> list_all (\<lambda>row. length row = length query_vector) feature_matrix
      then Inl ValueError
      else Inr (map (\<lambda>row. dot (normalize_row query_vector) (normalize_row row))
                  feature_matrix))"

text \<open>
  \<^verbatim>\<open>get_top_k_similar\<close>. \<^verbatim>\<open>if exclude_indices:\<close> skips \<^verbatim>\<open>None\<close> and the empty list;
  \<^verbatim>\<open>np.argsort(similarities)[::-1][:k]\<close> reverses the ascending order and slices it.
  The result is the pair of arrays the source returns. The first argument is the sort
  that \<^verbatim>\<open>np.argsort\<close> runs.
\<close>

definition get_top_k_similar ::
  "(vector \<Rightarrow> nat list) \<Rightarrow> vector \<Rightarrow> matrix \<Rightarrow> int \<Rightarrow> int list option
     \<Rightarrow> error + (nat list \<times> vector)" where
  "get_top_k_similar argsort query_vector feature_matrix k exclude_indices =
     (case compute_similarity query_vector feature_matrix of
        Inl e \<Rightarrow> Inl e
      | Inr similarities \<Rightarrow>
          (case (case exclude_indices of
                   None \<Rightarrow> Inr similarities
                 | Some ex \<Rightarrow> if ex = [] then Inr similarities
                             else assign_indices similarities ex (- 1)) of
             Inl e \<Rightarrow> Inl e
           | Inr similarities' \<Rightarrow>
               (let top_k_indices = py_take k (rev (argsort similarities'));
                    top_k_scores = map (\<lambda>i. similarities' ! i) top_k_indices
                in Inr (top_k_indices, top_k_scores))))"

section \<open>Feature index (\<^verbatim>\<open>index_builder.py\<close>)\<close>

text \<open>
  The processed tracks table. Its columns \<^verbatim>\<open>id\<close>, \<^verbatim>\<open>name\<close>, \<^verbatim>\<open>artists\<close>,
  \<^verbatim>\<open>popularity\<close> and \<^verbatim>\<open>release_year\<close> are fields of every row, so a table without them
  is not represented, nor is a missing popularity; a missing release year is \<^term>\<open>None\<close>.
  The first three hold text, taken not to read as numbers (track ids, titles, artist
  names); the other two are numeric. The further columns, all numeric, are named by
  \<open>df_columns\<close> (none of them by one of the five names above); \<open>r_values row c\<close> is the
  cell of column \<open>c\<close>, \<^term>\<open>None\<close> when it is NaN. The row labels are the positions
  \<open>0, 1, \<dots>\<close> (the default index of \<^verbatim>\<open>pd.read_csv\<close>).
\<close>

record track_row =
  r_id :: string
  r_name :: string
  r_artists :: string
  r_popularity :: int
  r_release_year :: "int option"
  r_values :: "string \<Rightarrow> real option"

record data_frame =
  df_columns :: "string list"
  df_rows :: "track_row list"

definition text_columns :: "string list" where
  "text_columns = [''id'', ''name'', ''artists'']"

definition column_names :: "data_frame \<Rightarrow> string list" where
  "column_names table = text_columns @ [''popularity'', ''release_year''] @ df_columns table"

text \<open>The cell of a numeric column, as the floating-point value pandas hands to NumPy.\<close>

definition numeric_cell :: "track_row \<Rightarrow> string \<Rightarrow> real option" where
  "numeric_cell row c =
     (if c = ''popularity'' then Some (real_of_int (r_popularity row))
      else if c = ''release_year'' then map_option real_of_int (r_release_year row)
      else r_values row c)"

text \<open>
  The fitted attributes \<^verbatim>\<open>mean_\<close> and \<^verbatim>\<open>scale_\<close> of scikit-learn's
  \<^verbatim>\<open>StandardScaler\<close> (named without the trailing underscore).
\<close>

record scaler =
  sc_mean :: vector
  sc_scale :: vector

record track_meta =
  m_id :: string
  m_name :: string
  m_artists :: string
  m_popularity :: int
  m_release_year :: "int option"

text \<open>
  The track index and the configuration are Python dictionaries with fixed keys: a field
  is \<^term>\<open>None\<close> when the dictionary has no such key, which a dictionary read from a file
  may lack, and reading it raises \<open>KeyError\<close>. The three dictionaries inside the track
  index are association lists in insertion order, written with \<^const>\<open>AList.update\<close> (a
  key already present keeps its place and takes the new value, as a Python dictionary
  does). The keys of \<open>track_metadata\<close> are the row labels, which the source turns into
  decimal strings.
\<close>

record track_index =
  id_to_idx :: "(string \<times> nat) list option"
  idx_to_id :: "(nat \<times> string) list option"
  track_metadata :: "(nat \<times> track_meta) list option"

record config =
  feature_columns :: "string list option"
  n_tracks :: "nat option"
  n_features :: "nat option"
  scaler_mean :: "vector option"
  scaler_scale :: "vector option"

text \<open>
  A file of the model directory is absent, or there but not decodable (not an array file,
  not a JSON document), or holds a value.
\<close>

datatype 'a file_content = Absent | Damaged | Stored 'a

record model_dir =
  feature_matrix_npy :: "matrix file_content"
  track_index_json :: "track_index file_content"
  model_config_json :: "config file_content"

text \<open>\<^verbatim>\<open>np.nan_to_num(x, nan=0.0)\<close> on one cell.\<close>

definition nan_to_num :: "real option \<Rightarrow> real" where
  "nan_to_num c = (case c of None \<Rightarrow> 0 | Some x \<Rightarrow> x)"

text \<open>
  \<^verbatim>\<open>df[feature_columns].values\<close> followed by \<^verbatim>\<open>np.nan_to_num\<close>, as far as the scaler
  accepts the result. pandas raises \<open>KeyError\<close> when a label of the list is not a column
  of the table. When the list names a text column the array holds Python objects:
  \<^verbatim>\<open>np.nan_to_num\<close> returns it as it is, and the scaler raises \<open>ValueError\<close> on it, when it
  turns the text into \<^verbatim>\<open>float64\<close> or, without rows, when it counts them. That error is
  returned here, since no numeric array exists to return.
\<close>

definition extract_features :: "data_frame \<Rightarrow> string list \<Rightarrow> error + matrix" where
  "extract_features table cols =
     (if \<not> list_all (\<lambda>c. c \<in> set (column_names table)) cols then Inl KeyError
      else if list_ex (\<lambda>c. c \<in> set text_columns) cols then Inl ValueError
      else Inr (map (\<lambda>row. map (\<lambda>c. nan_to_num (numeric_cell row c)) cols) (df_rows table)))"

definition column :: "matrix \<Rightarrow> nat \<Rightarrow> vector" where
  "column X j = map (\<lambda>row. row ! j) X"

definition mean :: "vector \<Rightarrow> real" where
  "mean xs = sum_list xs / real (length xs)"

text \<open>The population variance (\<^verbatim>\<open>ddof = 0\<close>) that \<^verbatim>\<open>StandardScaler\<close> computes.\<close>

definition variance :: "vector \<Rightarrow> real" where
  "variance xs = mean (map (\<lambda>x. (x - mean xs)\<^sup>2) xs)"

text \<open>
  scikit-learn's test for a constant feature, on the variance, the mean and the number of
  samples: the variance is within the rounding error of its own computation, where
  \<open>2\<^sup>-\<^sup>5\<^sup>2\<close> is the machine epsilon of \<^verbatim>\<open>float64\<close>. A variance of zero passes it.
\<close>

definition float_eps :: real where
  "float_eps = 1 / 4503599627370496"

definition is_constant_feature :: "real \<Rightarrow> real \<Rightarrow> nat \<Rightarrow> bool" where
  "is_constant_feature var mu n_samples =
     (var \<le> real n_samples * float_eps * var + (real n_samples * mu * float_eps)\<^sup>2)"

text \<open>
  The scale of a column is its standard deviation; the scale of a constant feature is set
  to one.
\<close>

definition column_scale :: "vector \<Rightarrow> real" where
  "column_scale xs =
     (if is_constant_feature (variance xs) (mean xs) (length xs) then 1
      else sqrt (variance xs))"

definition scaler_transform :: "scaler \<Rightarrow> matrix \<Rightarrow> matrix" where
  "scaler_transform sc X =
     map (\<lambda>row. map (\<lambda>(x, m, s). (x - m) / s) (zip row (zip (sc_mean sc) (sc_scale sc)))) X"

text \<open>
  \<^verbatim>\<open>StandardScaler.fit_transform\<close>: the input validation raises \<open>ValueError\<close> on an array
  with no row or no column; the argument is rectangular, so its first row gives the column
  count.
\<close>

definition fit_transform :: "matrix \<Rightarrow> error + (matrix \<times> scaler)" where
  "fit_transform X =
     (case X of
        [] \<Rightarrow> Inl ValueError
      | row0 # _ \<Rightarrow>
          if row0 = [] then Inl ValueError
          else (let sc = \<lparr>sc_mean = map (\<lambda>j. mean (column X j)) [0..<length row0],
                          sc_scale = map (\<lambda>j. column_scale (column X j)) [0..<length row0]\<rparr>
                in Inr (scaler_transform sc X, sc)))"

definition make_track_index :: "data_frame \<Rightarrow> track_index" where
  "make_track_index table =
     \<lparr>id_to_idx = Some (fold (\<lambda>(idx, row). AList.update (r_id row) idx)
                          (enumerate 0 (df_rows table)) []),
      idx_to_id = Some (fold (\<lambda>(idx, row). AList.update idx (r_id row))
                          (enumerate 0 (df_rows table)) []),
      track_metadata = Some (fold (\<lambda>(idx, row). AList.update idx
                               \<lparr>m_id = r_id row, m_name = r_name row,
                                m_artists = r_artists row, m_popularity = r_popularity row,
                                m_release_year = r_release_year row\<rparr>)
                          (enumerate 0 (df_rows table)) [])\<rparr>"

text \<open>
  \<^verbatim>\<open>IndexBuilder.build_index\<close>. The builder's state is its scaler, fitted by the call and
  returned beside the result.
\<close>

definition build_index ::
  "data_frame \<Rightarrow> string list \<Rightarrow> error + ((matrix \<times> track_index) \<times> scaler)" where
  "build_index table cols =
     (case extract_features table cols of
        Inl e \<Rightarrow> Inl e
      | Inr raw \<Rightarrow>
          (case fit_transform raw of
             Inl e \<Rightarrow> Inl e
           | Inr (fm, sc) \<Rightarrow> Inr ((fm, make_track_index table), sc)))"

text \<open>
  \<^verbatim>\<open>IndexBuilder.save_index\<close> with no extra configuration: the three files are written
  in turn. An unfitted scaler (\<^term>\<open>None\<close>) has no \<^verbatim>\<open>mean_\<close>: the first two files are
  written before the configuration is assembled, but the exception leaves no result to
  return, so the model returns the error alone.
\<close>

definition save_index ::
  "scaler option \<Rightarrow> model_dir \<Rightarrow> matrix \<Rightarrow> track_index \<Rightarrow> string list \<Rightarrow> error + model_dir" where
  "save_index sc dir fm ti cols =
     (case sc of
        None \<Rightarrow> Inl AttributeError
      | Some s \<Rightarrow>
          Inr (dir\<lparr>feature_matrix_npy := Stored fm,
                   track_index_json := Stored ti,
                   model_config_json :=
                     Stored \<lparr>feature_columns = Some cols, n_tracks = Some (length fm),
                             n_features =
                               Some (case fm of [] \<Rightarrow> 0 | row0 # _ \<Rightarrow> length row0),
                             scaler_mean = Some (sc_mean s),
                             scaler_scale = Some (sc_scale s)\<rparr>\<rparr>))"

text \<open>
  \<^verbatim>\<open>IndexBuilder.load_index\<close>, statement by statement: the matrix is loaded; the track
  index is opened and decoded and the length of its \<^verbatim>\<open>id_to_idx\<close> is printed; the
  configuration is opened and decoded; the scaler is restored from \<^verbatim>\<open>scaler_mean\<close> and
  \<^verbatim>\<open>scaler_scale\<close>. The source compares nothing across the three.
\<close>

definition load_index :: "model_dir \<Rightarrow> error + ((matrix \<times> track_index \<times> config) \<times> scaler)" where
  "load_index dir =
     (case feature_matrix_npy dir of
        Absent \<Rightarrow> Inl FileNotFoundError
      | Damaged \<Rightarrow> Inl DecodeError
      | Stored fm \<Rightarrow>
          (case track_index_json dir of
             Absent \<Rightarrow> Inl FileNotFoundError
           | Damaged \<Rightarrow> Inl DecodeError
           | Stored ti \<Rightarrow>
               (case id_to_idx ti of
                  None \<Rightarrow> Inl KeyError
                | Some _ \<Rightarrow>
                    (case model_config_json dir of
                       Absent \<Rightarrow> Inl FileNotFoundError
                     | Damaged \<Rightarrow> Inl DecodeError
                     | Stored cfg \<Rightarrow>
                         (case scaler_mean cfg of
                            None \<Rightarrow> Inl KeyError
                          | Some m \<Rightarrow>
                              (case scaler_scale cfg of
                                 None \<Rightarrow> Inl KeyError
                               | Some s \<Rightarrow>
                                   Inr ((fm, ti, cfg),
                                        \<lparr>sc_mean = m, sc_scale = s\<rparr>)))))))"

section \<open>Recommendation orchestrator (\<^verbatim>\<open>recommender.py\<close>)\<close>

text \<open>
  The fields of a \<^verbatim>\<open>MusicRecommender\<close>: what \<^verbatim>\<open>load_index\<close> returned, the scaler of
  its index builder, the table read from the processed tracks file, the weight table of
  its similarity computer, and the weighted matrix.
\<close>

record music_recommender =
  feature_matrix :: matrix
  track_index :: track_index
  config :: config
  scaler :: scaler
  df :: data_frame
  feature_weights :: weight_table
  weighted_feature_matrix :: matrix

text \<open>
  \<^verbatim>\<open>MusicRecommender.__init__\<close>, given the contents of the model directory and the table
  that \<^verbatim>\<open>pd.read_csv\<close> returns. \<^verbatim>\<open>self.config['feature_columns']\<close> raises \<open>KeyError\<close>
  on a configuration without that key.
\<close>

definition music_recommender_init :: "model_dir \<Rightarrow> data_frame \<Rightarrow> error + music_recommender" where
  "music_recommender_init dir table =
     (case load_index dir of
        Inl e \<Rightarrow> Inl e
      | Inr ((fm, ti, cfg), sc) \<Rightarrow>
          (case feature_columns cfg of
             None \<Rightarrow> Inl KeyError
           | Some feature_names \<Rightarrow>
               (case apply_weights (new_similarity_computer None) fm feature_names of
                  Inl e \<Rightarrow> Inl e
                | Inr wm \<Rightarrow>
                    Inr \<lparr>feature_matrix = fm, track_index = ti, config = cfg, scaler = sc,
                         df = table, feature_weights = new_similarity_computer None,
                         weighted_feature_matrix = wm\<rparr>)))"

text \<open>
  The dictionary appended for each recommendation. \<^verbatim>\<open>track_data.get(c, 0)\<close> is \<open>0\<close> when
  the table has no column \<open>c\<close> and the cell otherwise; \<^verbatim>\<open>float\<close> keeps a NaN cell, which
  is \<^term>\<open>None\<close> here.
\<close>

record recommendation =
  rec_id :: string
  rec_name :: string
  rec_artists :: string
  rec_popularity :: int
  rec_release_year :: "int option"
  rec_similarity_score :: real
  rec_danceability :: "real option"
  rec_energy :: "real option"
  rec_valence :: "real option"
  rec_tempo :: "real option"

definition get_value :: "data_frame \<Rightarrow> track_row \<Rightarrow> string \<Rightarrow> real option" where
  "get_value table track_data c =
     (if c \<in> set (df_columns table) then r_values track_data c else Some 0)"

definition make_recommendation :: "data_frame \<Rightarrow> track_row \<Rightarrow> real \<Rightarrow> recommendation" where
  "make_recommendation table track_data score =
     \<lparr>rec_id = r_id track_data, rec_name = r_name track_data,
      rec_artists = r_artists track_data, rec_popularity = r_popularity track_data,
      rec_release_year = r_release_year track_data, rec_similarity_score = score,
      rec_danceability = get_value table track_data ''danceability'',
      rec_energy = get_value table track_data ''energy'',
      rec_valence = get_value table track_data ''valence'',
      rec_tempo = get_value table track_data ''tempo''\<rparr>"

text \<open>
  \<^verbatim>\<open>min_popularity and popularity < min_popularity\<close>: \<^verbatim>\<open>None\<close> and \<open>0\<close> are falsy, so
  the comparison is made for a nonzero bound only.
\<close>

definition popularity_rejects :: "int option \<Rightarrow> track_row \<Rightarrow> bool" where
  "popularity_rejects min_popularity track_data =
     (case min_popularity of
        None \<Rightarrow> False
      | Some m \<Rightarrow> m \<noteq> 0 \<and> r_popularity track_data < m)"

text \<open>A pair is truthy whatever it holds, so a year range that is given is always applied.\<close>

definition year_rejects :: "(int \<times> int) option \<Rightarrow> track_row \<Rightarrow> bool" where
  "year_rejects year_range track_data =
     (case year_range of
        None \<Rightarrow> False
      | Some (lo, hi) \<Rightarrow>
          (case r_release_year track_data of
             None \<Rightarrow> True
           | Some year \<Rightarrow> year < lo \<or> hi < year))"

text \<open>
  The loop of \<^verbatim>\<open>get_recommendations\<close> over \<^verbatim>\<open>zip(top_k_indices, top_k_scores)\<close>, with
  the list built so far and the set of artists seen. \<^verbatim>\<open>self.df.iloc[idx]\<close> raises
  \<open>IndexError\<close> past the end of the table; each \<^verbatim>\<open>continue\<close> goes on with the state
  unchanged; the \<^verbatim>\<open>break\<close> returns the list once its length after the append, one more
  than before, has reached \<open>n\<close>.
\<close>

fun collect ::
  "data_frame \<Rightarrow> int \<Rightarrow> bool \<Rightarrow> int option \<Rightarrow> (int \<times> int) option \<Rightarrow> (nat \<times> real) list
     \<Rightarrow> recommendation list \<Rightarrow> string set \<Rightarrow> error + recommendation list" where
  "collect table n diversity_filter min_popularity year_range [] recommendations seen_artists =
     Inr recommendations"
| "collect table n diversity_filter min_popularity year_range ((idx, score) # rest)
       recommendations seen_artists =
     (if length (df_rows table) \<le> idx then Inl IndexError
      else if popularity_rejects min_popularity (df_rows table ! idx)
        then collect table n diversity_filter min_popularity year_range rest
               recommendations seen_artists
      else if year_rejects year_range (df_rows table ! idx)
        then collect table n diversity_filter min_popularity year_range rest
               recommendations seen_artists
      else if diversity_filter \<and> r_artists (df_rows table ! idx) \<in> seen_artists
        then collect table n diversity_filter min_popularity year_range rest
               recommendations seen_artists
      else if n \<le> int (length recommendations) + 1
        then Inr (recommendations @ [make_recommendation table (df_rows table ! idx) score])
      else collect table n diversity_filter min_popularity year_range rest
             (recommendations @ [make_recommendation table (df_rows table ! idx) score])
             (if diversity_filter then insert (r_artists (df_rows table ! idx)) seen_artists
              else seen_artists))"

text \<open>
  \<^verbatim>\<open>MusicRecommender.get_recommendations\<close>. \<^verbatim>\<open>self.track_index['id_to_idx']\<close> raises
  \<open>KeyError\<close> on an index without that key. The row of the seed is read from the weighted
  matrix (\<open>IndexError\<close> when the index names a row the matrix does not have), \<open>k\<close> is five
  times \<open>n\<close> under the diversity filter, capped by the row count, and the seed's row is
  the only excluded index. The first argument is the sort that \<^verbatim>\<open>np.argsort\<close> runs.
\<close>

definition get_recommendations ::
  "(vector \<Rightarrow> nat list) \<Rightarrow> music_recommender \<Rightarrow> string \<Rightarrow> int \<Rightarrow> bool \<Rightarrow> int option
     \<Rightarrow> (int \<times> int) option \<Rightarrow> error + recommendation list" where
  "get_recommendations argsort self track_id n_recommendations diversity_filter min_popularity
       year_range =
     (case id_to_idx (track_index self) of
        None \<Rightarrow> Inl KeyError
      | Some ids \<Rightarrow>
          (case map_of ids track_id of
             None \<Rightarrow> Inl ValueError
           | Some track_idx \<Rightarrow>
               if length (weighted_feature_matrix self) \<le> track_idx then Inl IndexError
               else
                 (case get_top_k_similar argsort (weighted_feature_matrix self ! track_idx)
                         (weighted_feature_matrix self)
                         (min (if diversity_filter then n_recommendations * 5
                               else n_recommendations)
                              (int (length (feature_matrix self))))
                         (Some [int track_idx]) of
                    Inl e \<Rightarrow> Inl e
                  | Inr (top_k_indices, top_k_scores) \<Rightarrow>
                      collect (df self) n_recommendations diversity_filter min_popularity
                        year_range (zip top_k_indices top_k_scores) [] {})))"

text \<open>
  \<^verbatim>\<open>np.median\<close>: the middle of the sorted values, or the mean of the two middle ones.
  On an empty array NumPy returns NaN; that happens here only for a matrix without rows,
  on which the similarity computation raises \<open>ValueError\<close> whatever the query holds, so
  the value chosen for the empty list does not reach any result.
\<close>

definition median :: "vector \<Rightarrow> real" where
  "median xs =
     (if xs = [] then 0
      else if odd (length xs) then sort xs ! (length xs div 2)
      else (sort xs ! (length xs div 2 - 1) + sort xs ! (length xs div 2)) / 2)"

text \<open>
  One entry of the synthetic query of \<^verbatim>\<open>get_recommendations_by_features\<close>: the chain of
  comparisons on the feature name, in the source's order. \<^verbatim>\<open>self.feature_matrix[:, i]\<close>
  raises \<open>IndexError\<close> when the matrix has no column \<open>i\<close>.
\<close>

definition query_entry ::
  "matrix \<Rightarrow> real \<Rightarrow> real \<Rightarrow> real \<Rightarrow> real \<Rightarrow> nat \<times> string \<Rightarrow> error + real" where
  "query_entry fm danceability energy valence tempo e =
     (case e of (i, feature) \<Rightarrow>
        if feature = ''danceability'' then Inr danceability
        else if feature = ''energy'' then Inr energy
        else if feature = ''valence'' then Inr valence
        else if feature = ''tempo'' then Inr tempo
        else if feature = ''tempo_normalized'' then Inr (tempo / 250)
        else if list_all (\<lambda>row. i < length row) fm then Inr (median (column fm i))
        else Inl IndexError)"

text \<open>The results of a loop whose body may raise: the first error ends it.\<close>

fun collect_results :: "(error + 'a) list \<Rightarrow> error + 'a list" where
  "collect_results [] = Inr []"
| "collect_results (r # rs) =
     (case r of
        Inl e \<Rightarrow> Inl e
      | Inr x \<Rightarrow> (case collect_results rs of Inl e \<Rightarrow> Inl e | Inr xs \<Rightarrow> Inr (x # xs)))"

text \<open>The loop over \<^verbatim>\<open>enumerate(feature_names)\<close> that fills the query vector.\<close>

definition synthetic_query ::
  "matrix \<Rightarrow> string list \<Rightarrow> real \<Rightarrow> real \<Rightarrow> real \<Rightarrow> real \<Rightarrow> error + vector" where
  "synthetic_query fm feature_names danceability energy valence tempo =
     collect_results (map (query_entry fm danceability energy valence tempo)
                        (enumerate 0 feature_names))"

text \<open>\<^verbatim>\<open>(query_vector - scaler.mean_) / scaler.scale_\<close>, both steps broadcasting.\<close>

definition standardize_query :: "scaler \<Rightarrow> vector \<Rightarrow> error + vector" where
  "standardize_query sc query_vector =
     (case broadcast2 (-) query_vector (sc_mean sc) of
        Inl e \<Rightarrow> Inl e
      | Inr centred \<Rightarrow> broadcast2 (/) centred (sc_scale sc))"

record feature_recommendation =
  fr_id :: string
  fr_name :: string
  fr_artists :: string
  fr_similarity_score :: real
  fr_danceability :: "real option"
  fr_energy :: "real option"
  fr_valence :: "real option"
  fr_tempo :: "real option"

definition make_feature_recommendation ::
  "data_frame \<Rightarrow> nat \<times> real \<Rightarrow> error + feature_recommendation" where
  "make_feature_recommendation table c =
     (case c of (idx, score) \<Rightarrow>
        if length (df_rows table) \<le> idx then Inl IndexError
        else Inr \<lparr>fr_id = r_id (df_rows table ! idx), fr_name = r_name (df_rows table ! idx),
                  fr_artists = r_artists (df_rows table ! idx), fr_similarity_score = score,
                  fr_danceability = get_value table (df_rows table ! idx) ''danceability'',
                  fr_energy = get_value table (df_rows table ! idx) ''energy'',
                  fr_valence = get_value table (df_rows table ! idx) ''valence'',
                  fr_tempo = get_value table (df_rows table ! idx) ''tempo''\<rparr>)"

text \<open>
  \<^verbatim>\<open>MusicRecommender.get_recommendations_by_features\<close>. The medians are taken from
  \<^verbatim>\<open>self.feature_matrix\<close>, the matrix that \<^verbatim>\<open>load_index\<close> returned. The weights are
  applied to the query as a matrix of one row, whose first row is the weighted query. The
  first argument is the sort that \<^verbatim>\<open>np.argsort\<close> runs.
\<close>

definition get_recommendations_by_features ::
  "(vector \<Rightarrow> nat list) \<Rightarrow> music_recommender \<Rightarrow> real \<Rightarrow> real \<Rightarrow> real \<Rightarrow> real \<Rightarrow> int
     \<Rightarrow> error + feature_recommendation list" where
  "get_recommendations_by_features argsort self danceability energy valence tempo
       n_recommendations =
     (case feature_columns (config self) of
        None \<Rightarrow> Inl KeyError
      | Some feature_names \<Rightarrow>
          (case synthetic_query (feature_matrix self) feature_names
                  danceability energy valence tempo of
             Inl e \<Rightarrow> Inl e
           | Inr raw_query \<Rightarrow>
               (case standardize_query (scaler self) raw_query of
                  Inl e \<Rightarrow> Inl e
                | Inr standardized \<Rightarrow>
                    (case apply_weights (feature_weights self) [standardized] feature_names of
                       Inl e \<Rightarrow> Inl e
                     | Inr weighted \<Rightarrow>
                         (case get_top_k_similar argsort (hd weighted)
                                 (weighted_feature_matrix self) n_recommendations None of
                            Inl e \<Rightarrow> Inl e
                          | Inr (top_k_indices, top_k_scores) \<Rightarrow>
                              collect_results
                                (map (make_feature_recommendation (df self))
                                   (zip top_k_indices top_k_scores)))))))"

section \<open>Example catalogues\<close>

text \<open>
  A table of two tracks with the single numeric column \<^verbatim>\<open>loudness\<close>, the model
  directory that \<^const>\<open>save_index\<close> writes for the index built from it, and the
  recommender that \<^const>\<open>music_recommender_init\<close> makes of both. The weight table has
  no entry for \<^verbatim>\<open>loudness\<close>, so the weighted matrix is the standardized one.
\<close>

definition two_tracks :: data_frame where
  "two_tracks =
     \<lparr>df_columns = [''loudness''],
      df_rows =
        [\<lparr>r_id = ''A'', r_name = ''first'', r_artists = ''X'', r_popularity = 50,
          r_release_year = Some 2000,
          r_values = (\<lambda>c. if c = ''loudness'' then Some 1 else None)\<rparr>,
         \<lparr>r_id = ''B'', r_name = ''second'', r_artists = ''Y'', r_popularity = 60,
          r_release_year = Some 2010,
          r_values = (\<lambda>c. if c = ''loudness'' then Some 3 else None)\<rparr>]\<rparr>"

definition two_tracks_config :: config where
  "two_tracks_config =
     \<lparr>feature_columns = Some [''loudness''], n_tracks = Some 2, n_features = Some 1,
      scaler_mean = Some [2], scaler_scale = Some [1]\<rparr>"

definition two_tracks_dir :: model_dir where
  "two_tracks_dir =
     \<lparr>feature_matrix_npy = Stored [[- 1], [1]],
      track_index_json = Stored (make_track_index two_tracks),
      model_config_json = Stored two_tracks_config\<rparr>"

definition two_tracks_recommender :: music_recommender where
  "two_tracks_recommender =
     \<lparr>feature_matrix = [[- 1], [1]], track_index = make_track_index two_tracks,
      config = two_tracks_config, scaler = \<lparr>sc_mean = [2], sc_scale = [1]\<rparr>,
      df = two_tracks, feature_weights = get_default_weights,
      weighted_feature_matrix = [[- 1], [1]]\<rparr>"

text \<open>
  A table of four tracks, two of them by the same artist, and its recommender.
\<close>

definition four_tracks :: data_frame where
  "four_tracks =
     \<lparr>df_columns = [''loudness''],
      df_rows =
        [\<lparr>r_id = ''A'', r_name = ''first'', r_artists = ''X'', r_popularity = 50,
          r_release_year = Some 2000,
          r_values = (\<lambda>c. if c = ''loudness'' then Some 1 else None)\<rparr>,
         \<lparr>r_id = ''B'', r_name = ''second'', r_artists = ''Y'', r_popularity = 60,
          r_release_year = Some 2010,
          r_values = (\<lambda>c. if c = ''loudness'' then Some 3 else None)\<rparr>,
         \<lparr>r_id = ''C'', r_name = ''third'', r_artists = ''Z'', r_popularity = 70,
          r_release_year = None,
          r_values = (\<lambda>c. if c = ''loudness'' then Some 1 else None)\<rparr>,
         \<lparr>r_id = ''D'', r_name = ''fourth'', r_artists = ''Z'', r_popularity = 80,
          r_release_year = Some 2020,
          r_values = (\<lambda>c. if c = ''loudness'' then Some 3 else None)\<rparr>]\<rparr>"

definition four_tracks_config :: config where
  "four_tracks_config =
     \<lparr>feature_columns = Some [''loudness''], n_tracks = Some 4, n_features = Some 1,
      scaler_mean = Some [2], scaler_scale = Some [1]\<rparr>"

definition four_tracks_recommender :: music_recommender where
  "four_tracks_recommender =
     \<lparr>feature_matrix = [[- 1], [1], [- 1], [1]], track_index = make_track_index four_tracks,
      config = four_tracks_config, scaler = \<lparr>sc_mean = [2], sc_scale = [1]\<rparr>,
      df = four_tracks, feature_weights = get_default_weights,
      weighted_feature_matrix = [[- 1], [1], [- 1], [1]]\<rparr>"


text \<open>
  A model directory whose three files disagree: the matrix has two rows, the index one
  track, the configuration two feature columns and statistics for one.
\<close>

definition corrupt_index :: track_index where
  "corrupt_index =
     \<lparr>id_to_idx = Some [(''A'', 0)], idx_to_id = Some [(0, ''A'')],
      track_metadata = Some []\<rparr>"

definition corrupt_config :: config where
  "corrupt_config =
     \<lparr>feature_columns = Some [''loudness'', ''energy''], n_tracks = Some 1,
      n_features = Some 2, scaler_mean = Some [0], scaler_scale = Some [1]\<rparr>"

definition corrupt_dir :: model_dir where
  "corrupt_dir =
     \<lparr>feature_matrix_npy = Stored [[0], [0]],
      track_index_json = Stored corrupt_index,
      model_config_json = Stored corrupt_config\<rparr>"

section \<open>Properties of the similarity engine\<close>

subsection \<open>Slicing and index assignment\<close>

lemma py_index_in_range: "- int n \<le> i \<Longrightarrow> i < int n \<Longrightarrow> \<exists>j. py_index n i = Some j"
  by (auto simp: py_index_def)

lemma assign_indices_length: "assign_indices s ex v = Inr s' \<Longrightarrow> length s' = length s"
  by (induction ex arbitrary: s) (auto split: option.splits)

lemma assign_indices_in_range:
  "list_all (\<lambda>i. - int (length s) \<le> i \<and> i < int (length s)) ex
     \<Longrightarrow> \<exists>s'. assign_indices s ex v = Inr s'"
proof (induction ex arbitrary: s)
  case Nil
  then show ?case by simp
next
  case (Cons i js)
  then obtain j where j: "py_index (length s) i = Some j"
    using py_index_in_range[of "length s" i] by auto
  have "list_all (\<lambda>i. - int (length (s[j := v])) \<le> i \<and> i < int (length (s[j := v]))) js"
    using Cons.prems by simp
  from Cons.IH[OF this] show ?case by (simp add: j)
qed

lemma compute_similarity_length:
  "compute_similarity q M = Inr s \<Longrightarrow> length s = length M"
  by (auto simp: compute_similarity_def split: if_splits)

lemma length_py_take:
  "length (py_take k xs) = (if 0 \<le> k then min (nat k) (length xs) else nat (int (length xs) + k))"
  by (auto simp: py_take_def)

lemma py_take_is_take: "\<exists>m. py_take k xs = take m xs"
  by (auto simp: py_take_def)

lemma sorted_wrt_take: "sorted_wrt R xs \<Longrightarrow> sorted_wrt R (take m xs)"
  by (metis append_take_drop_id sorted_wrt_append)

subsection \<open>What the promise of the sort gives\<close>

lemma is_argsort_set: "is_argsort argsort \<Longrightarrow> set (argsort a) = {0..<length a}"
  by (simp add: is_argsort_def)

lemma is_argsort_distinct: "is_argsort argsort \<Longrightarrow> distinct (argsort a)"
  by (simp add: is_argsort_def)

lemma is_argsort_sorted: "is_argsort argsort \<Longrightarrow> sorted (map (\<lambda>i. a ! i) (argsort a))"
  by (simp add: is_argsort_def)

lemma is_argsort_length:
  assumes "is_argsort argsort"
  shows "length (argsort a) = length a"
proof -
  have "length (argsort a) = card (set (argsort a))"
    using is_argsort_distinct[OF assms] by (simp add: distinct_card)
  then show ?thesis by (simp add: is_argsort_set[OF assms])
qed

lemma is_argsort_insertion: "is_argsort insertion_argsort"
  by (simp add: is_argsort_def insertion_argsort_def)

lemma is_argsort_descending_tie: "is_argsort descending_tie_argsort"
  by (auto simp: is_argsort_def descending_tie_argsort_def)

lemma scores_non_increasing:
  assumes "is_argsort argsort"
  shows "sorted_wrt (\<ge>) (map (\<lambda>i. a ! i) (py_take k (rev (argsort a))))"
proof -
  obtain m where m: "py_take k (rev (argsort a)) = take m (rev (argsort a))"
    using py_take_is_take by blast
  have "sorted (map (\<lambda>i. a ! i) (argsort a))" by (rule is_argsort_sorted[OF assms])
  then have "sorted_wrt (\<ge>) (rev (map (\<lambda>i. a ! i) (argsort a)))"
    by (simp add: sorted_wrt_rev)
  then have "sorted_wrt (\<ge>) (take m (map (\<lambda>i. a ! i) (rev (argsort a))))"
    by (simp add: rev_map sorted_wrt_take)
  then show ?thesis by (simp add: m take_map)
qed

text \<open>On two values the sort has two possible results, and one when the values differ.\<close>

lemma positions_of_two:
  assumes "set p = {0, 1::nat}" "distinct p"
  shows "p = [0, 1] \<or> p = [1, 0]"
proof -
  have "length p = card {0, 1::nat}" using assms by (metis distinct_card)
  then have len: "length p = 2" by simp
  then obtain x xs where p1: "p = x # xs" by (cases p) auto
  with len obtain y ys where p2: "xs = y # ys" by (cases xs) auto
  with len p1 have p: "p = [x, y]" by simp
  have "{x, y} = {0, 1}" using assms(1) p by simp
  moreover have "x \<noteq> y" using assms(2) p by simp
  ultimately have "(x = 0 \<and> y = 1) \<or> (x = 1 \<and> y = 0)"
    by (simp add: doubleton_eq_iff)
  then show ?thesis unfolding p by blast
qed

lemma is_argsort_two:
  assumes "is_argsort argsort"
  shows "argsort [x, y] = [0, 1] \<or> argsort [x, y] = [1, 0]"
proof (rule positions_of_two)
  have "{0..<length [x, y]} = {0, 1::nat}" by auto
  then show "set (argsort [x, y]) = {0, 1}"
    using is_argsort_set[OF assms, of "[x, y]"] by simp
  show "distinct (argsort [x, y])" by (rule is_argsort_distinct[OF assms])
qed

lemma is_argsort_two_ascending:
  assumes "is_argsort argsort" "x < y"
  shows "argsort [x, y] = [0, 1]"
proof -
  have "sorted (map (\<lambda>i. [x, y] ! i) (argsort [x, y]))" by (rule is_argsort_sorted[OF assms(1)])
  then have "argsort [x, y] \<noteq> [1, 0]" using assms(2) by auto
  then show ?thesis using is_argsort_two[OF assms(1), of x y] by blast
qed

subsection \<open>What \<^const>\<open>get_top_k_similar\<close> returns\<close>

lemma get_top_k_similar_Inr:
  assumes "get_top_k_similar argsort q M k ex = Inr (idx, sc)"
  shows "\<exists>s. length s = length M \<and> idx = py_take k (rev (argsort s))
           \<and> sc = map (\<lambda>i. s ! i) idx"
proof -
  from assms obtain s0 where s0: "compute_similarity q M = Inr s0"
    by (auto simp: get_top_k_similar_def split: sum.splits)
  from assms s0 obtain s where
    s: "(case ex of None \<Rightarrow> Inr s0
         | Some e \<Rightarrow> if e = [] then Inr s0 else assign_indices s0 e (- 1)) = Inr s"
    by (auto simp: get_top_k_similar_def split: sum.splits)
  have "length s = length s0"
    using s by (auto split: option.splits if_splits dest: assign_indices_length)
  then have "length s = length M" using s0 by (simp add: compute_similarity_length)
  moreover have "idx = py_take k (rev (argsort s))" "sc = map (\<lambda>i. s ! i) idx"
    using assms s0 s by (auto simp: get_top_k_similar_def Let_def)
  ultimately show ?thesis by blast
qed

lemma get_top_k_similar_returns:
  assumes "M \<noteq> []" "q \<noteq> []" "list_all (\<lambda>row. length row = length q) M"
    and "list_all (\<lambda>i. - int (length M) \<le> i \<and> i < int (length M))
           (case ex of None \<Rightarrow> [] | Some e \<Rightarrow> e)"
  shows "\<exists>idx sc. get_top_k_similar argsort q M k ex = Inr (idx, sc)"
proof -
  obtain s0 where s0: "compute_similarity q M = Inr s0" "length s0 = length M"
    using assms(1-3) by (simp add: compute_similarity_def)
  have "\<exists>s. (case ex of None \<Rightarrow> Inr s0
         | Some e \<Rightarrow> if e = [] then Inr s0 else assign_indices s0 e (- 1)) = Inr s"
    using assms(4) s0(2) assign_indices_in_range[of s0 _ "- 1"]
    by (auto split: option.splits)
  then show ?thesis
    using s0 by (auto simp: get_top_k_similar_def Let_def)
qed

text \<open>
  Claim C1 says that a row listed in the excluded indices never appears in the output of
  the top-k search. The source only overwrites the score of such a row with \<open>-1\<close>; the
  row stays in the ranking and is returned as soon as \<open>k\<close> reaches it. With two rows
  equal to the query, \<open>k = 2\<close> and row \<open>0\<close> excluded, the scores are \<open>-1\<close> and \<open>1\<close>, and
  whatever sort keeps NumPy's promise, row \<open>0\<close> is returned, with score \<open>-1\<close>.
\<close>

theorem top_k_returns_excluded_row:
  assumes "is_argsort argsort"
  shows "get_top_k_similar argsort [1] [[1], [1]] 2 (Some [0]) = Inr ([1, 0], [1, - 1])"
proof -
  have a: "argsort [- 1, 1] = [0, 1]"
    by (rule is_argsort_two_ascending[OF assms]) simp
  show ?thesis
    by (simp add: get_top_k_similar_def compute_similarity_def normalize_row_def l2_norm_def
        dot_def py_take_def py_index_def a)
qed

theorem top_k_returns_excluded_row_witness:
  "get_top_k_similar insertion_argsort [1] [[1], [1]] 2 (Some [0]) = Inr ([1, 0], [1, - 1])"
  by (rule top_k_returns_excluded_row[OF is_argsort_insertion])

text \<open>
  Claim C7 says that \<open>k \<le> 0\<close> gives an empty result. For a negative \<open>k\<close> the slice
  \<^verbatim>\<open>[:k]\<close> drops the last \<open>|k|\<close> entries instead: with two rows of different scores and
  \<open>k = -1\<close> one entry is returned.
\<close>

theorem top_k_negative_k_not_empty:
  "get_top_k_similar insertion_argsort [1] [[1], [- 1]] (- 1) None = Inr ([0], [1])"
  by (simp add: get_top_k_similar_def compute_similarity_def normalize_row_def l2_norm_def dot_def
      insertion_argsort_def py_take_def upt_rec)

text \<open>
  Claim C7, amended: on a matrix with at least one row, whose rows have the length of a
  non-empty query, and with every excluded index inside the matrix, the top-k search
  returns, whatever sort keeps NumPy's promise; for \<open>k \<ge> 0\<close> it returns exactly
  \<open>min k catalog_size\<close> entries (none for \<open>k = 0\<close>), for \<open>k < 0\<close> it returns
  \<open>max (catalog_size + k) 0\<close> entries; the scores are as many as the rows and
  non-increasing.
\<close>

theorem top_k_count_and_order:
  assumes "is_argsort argsort"
    and "M \<noteq> []" "q \<noteq> []" "list_all (\<lambda>row. length row = length q) M"
    and "list_all (\<lambda>i. - int (length M) \<le> i \<and> i < int (length M))
           (case ex of None \<Rightarrow> [] | Some e \<Rightarrow> e)"
  shows "\<exists>idx sc. get_top_k_similar argsort q M k ex = Inr (idx, sc)
           \<and> length idx = (if 0 \<le> k then min (nat k) (length M) else nat (int (length M) + k))
           \<and> length sc = length idx
           \<and> sorted_wrt (\<ge>) sc"
proof -
  obtain idx sc where r: "get_top_k_similar argsort q M k ex = Inr (idx, sc)"
    using get_top_k_similar_returns[OF assms(2-5)] by blast
  then obtain s where s: "length s = length M" "idx = py_take k (rev (argsort s))"
      "sc = map (\<lambda>i. s ! i) idx"
    using get_top_k_similar_Inr by blast
  have "length idx = (if 0 \<le> k then min (nat k) (length M) else nat (int (length M) + k))"
    by (simp only: s(2) length_py_take length_rev is_argsort_length[OF assms(1)] s(1))
  moreover have "length sc = length idx" by (simp add: s(3))
  moreover have "sorted_wrt (\<ge>) sc"
    unfolding s(3) s(2) by (rule scores_non_increasing[OF assms(1)])
  ultimately show ?thesis using r by blast
qed

theorem top_k_count_and_order_witness:
  "\<exists>idx sc. get_top_k_similar insertion_argsort [1] [[1], [- 1], [1]] 2 (Some [0]) = Inr (idx, sc)
      \<and> length idx = 2 \<and> length sc = length idx \<and> sorted_wrt (\<ge>) sc"
  using top_k_count_and_order[OF is_argsort_insertion, of "[[1], [- 1], [1]]" "[1]" "Some [0]" 2]
  by (simp add: numeral_2_eq_2)

text \<open>
  The order of rows of equal score is left open by the promise of the sort: on two rows
  of equal score, one admissible sort makes the search return row \<open>1\<close> first, the other
  row \<open>0\<close>.
\<close>

lemma tie_order_follows_the_sort:
  "is_argsort insertion_argsort \<and> is_argsort descending_tie_argsort
   \<and> get_top_k_similar insertion_argsort [1] [[1], [1]] 2 None = Inr ([1, 0], [1, 1])
   \<and> get_top_k_similar descending_tie_argsort [1] [[1], [1]] 2 None = Inr ([0, 1], [1, 1])"
  by (simp add: is_argsort_insertion is_argsort_descending_tie
      get_top_k_similar_def compute_similarity_def normalize_row_def l2_norm_def dot_def
      insertion_argsort_def descending_tie_argsort_def py_take_def upt_rec)

subsection \<open>Weighting\<close>

lemma broadcast2_same_length:
  "length r = length ws \<Longrightarrow> broadcast2 f r ws = Inr (map2 f r ws)"
  by (simp add: broadcast2_def)

lemma mul_rows_well_shaped:
  "list_all (\<lambda>r. length r = length ws) M \<Longrightarrow> mul_rows M ws = Inr (map (\<lambda>r. map2 (*) r ws) M)"
  by (induction M) (simp_all add: broadcast2_same_length)

lemma map2_twice:
  "length r = length names \<Longrightarrow>
     map2 (*) (map2 (*) r (map w names)) (map w names)
       = map2 (\<lambda>x n. x * ((w n)::real)\<^sup>2) r names"
proof (induction r names rule: list_induct2)
  case Nil
  then show ?case by simp
next
  case (Cons x xs n ns)
  then show ?case by (simp add: power2_eq_square ac_simps)
qed

text \<open>
  In exact arithmetic, applying the weights a second time scales every entry by the
  square of its column's weight. The program's two rounded products need not equal the
  one rounded product with the squared weight.
\<close>

lemma apply_weights_twice_exact:
  assumes "list_all (\<lambda>row. length row = length names) M"
  shows "\<exists>M1. apply_weights fw M names = Inr M1
           \<and> apply_weights fw M1 names
               = Inr (map (\<lambda>row. map2 (\<lambda>x name. x * (weight_of fw name)\<^sup>2) row names) M)"
proof -
  let ?ws = "map (weight_of fw) names"
  let ?M1 = "map (\<lambda>r. map2 (*) r ?ws) M"
  have shape: "list_all (\<lambda>r. length r = length ?ws) M" using assms by simp
  have 1: "apply_weights fw M names = Inr ?M1"
    unfolding apply_weights_def by (rule mul_rows_well_shaped[OF shape])
  have shape1: "list_all (\<lambda>r. length r = length ?ws) ?M1"
    using assms by (simp add: list_all_iff)
  have "apply_weights fw ?M1 names = Inr (map (\<lambda>r. map2 (*) r ?ws) ?M1)"
    unfolding apply_weights_def by (rule mul_rows_well_shaped[OF shape1])
  also have "map (\<lambda>r. map2 (*) r ?ws) ?M1
      = map (\<lambda>row. map2 (\<lambda>x name. x * (weight_of fw name)\<^sup>2) row names) M"
    using assms by (simp add: list_all_iff map2_twice)
  finally have 2: "apply_weights fw ?M1 names
      = Inr (map (\<lambda>row. map2 (\<lambda>x name. x * (weight_of fw name)\<^sup>2) row names) M)" .
  from 1 2 show ?thesis by blast
qed

section \<open>Properties of the feature index\<close>

subsection \<open>Building\<close>















lemma two_tracks_index:
  "make_track_index two_tracks
     = \<lparr>id_to_idx = Some [(''A'', 0), (''B'', 1)],
        idx_to_id = Some [(0, ''A''), (1, ''B'')],
        track_metadata =
          Some [(0, \<lparr>m_id = ''A'', m_name = ''first'', m_artists = ''X'', m_popularity = 50,
                     m_release_year = Some 2000\<rparr>),
                (1, \<lparr>m_id = ''B'', m_name = ''second'', m_artists = ''Y'', m_popularity = 60,
                     m_release_year = Some 2010\<rparr>)]\<rparr>"
  by (simp add: make_track_index_def two_tracks_def enumerate_eq_zip upt_rec)

subsection \<open>Loading\<close>




text \<open>The failures of loading: an absent file, an undecodable file, a missing key.\<close>

lemma load_index_failures:
  "load_index (corrupt_dir\<lparr>feature_matrix_npy := Absent\<rparr>) = Inl FileNotFoundError"
  "load_index (corrupt_dir\<lparr>track_index_json := Damaged\<rparr>) = Inl DecodeError"
  "load_index (corrupt_dir\<lparr>track_index_json := Stored (corrupt_index\<lparr>id_to_idx := None\<rparr>)\<rparr>)
     = Inl KeyError"
  "load_index (corrupt_dir\<lparr>model_config_json := Stored (corrupt_config\<lparr>scaler_scale := None\<rparr>)\<rparr>)
     = Inl KeyError"
  by (simp_all add: load_index_def corrupt_dir_def corrupt_index_def corrupt_config_def)

section \<open>Properties of the recommendation orchestrator\<close>

subsection \<open>The example catalogues, evaluated\<close>

lemma two_tracks_extract: "extract_features two_tracks [''loudness''] = Inr [[1], [3]]"
  by (simp add: extract_features_def two_tracks_def nan_to_num_def column_names_def
      text_columns_def numeric_cell_def)

lemma fit_transform_two:
  "fit_transform [[1], [3]] = Inr ([[- 1], [1]], \<lparr>sc_mean = [2], sc_scale = [1]\<rparr>)"
  by (simp add: fit_transform_def scaler_transform_def column_def mean_def variance_def
      column_scale_def is_constant_feature_def float_eps_def power2_eq_square Let_def)

lemma two_tracks_build:
  "build_index two_tracks [''loudness'']
     = Inr (([[- 1], [1]], make_track_index two_tracks), \<lparr>sc_mean = [2], sc_scale = [1]\<rparr>)"
  by (simp add: build_index_def two_tracks_extract fit_transform_two)

lemma two_tracks_save:
  "save_index (Some \<lparr>sc_mean = [2], sc_scale = [1]\<rparr>)
       \<lparr>feature_matrix_npy = Absent, track_index_json = Absent, model_config_json = Absent\<rparr>
       [[- 1], [1]] (make_track_index two_tracks) [''loudness'']
     = Inr two_tracks_dir"
  by (simp add: save_index_def two_tracks_dir_def two_tracks_config_def)

lemma two_tracks_id_to_idx:
  "id_to_idx (make_track_index two_tracks) = Some [(''A'', 0), (''B'', 1)]"
  by (simp add: make_track_index_def two_tracks_def enumerate_eq_zip upt_rec)

lemma two_tracks_init:
  "music_recommender_init two_tracks_dir two_tracks = Inr two_tracks_recommender"
  by (simp add: music_recommender_init_def load_index_def two_tracks_dir_def
      two_tracks_id_to_idx two_tracks_config_def two_tracks_recommender_def
      new_similarity_computer_def apply_weights_def weight_of_def get_default_weights_def
      broadcast2_def)

lemma two_tracks_recommender_fields:
  "id_to_idx (track_index two_tracks_recommender) = Some [(''A'', 0), (''B'', 1)]"
  "weighted_feature_matrix two_tracks_recommender = [[- 1], [1]]"
  "feature_matrix two_tracks_recommender = [[- 1], [1]]"
  "df two_tracks_recommender = two_tracks"
  "scaler two_tracks_recommender = \<lparr>sc_mean = [2], sc_scale = [1]\<rparr>"
  "feature_columns (config two_tracks_recommender) = Some [''loudness'']"
  by (simp_all add: two_tracks_recommender_def two_tracks_id_to_idx two_tracks_config_def)

lemma two_tracks_top_k:
  "get_top_k_similar argsort [- 1] [[- 1], [1]] 2 (Some [0])
     = Inr (py_take 2 (rev (argsort [- 1, - 1])),
            map (\<lambda>i. [- 1, - 1] ! i) (py_take 2 (rev (argsort [- 1, - 1]))))"
  by (simp add: get_top_k_similar_def compute_similarity_def normalize_row_def l2_norm_def dot_def
      py_index_def Let_def)

lemma two_tracks_collect:
  "collect two_tracks 2 True None None [(1, - 1), (0, - 1)] [] {}
     = Inr [\<lparr>rec_id = ''B'', rec_name = ''second'', rec_artists = ''Y'', rec_popularity = 60,
             rec_release_year = Some 2010, rec_similarity_score = - 1,
             rec_danceability = Some 0, rec_energy = Some 0, rec_valence = Some 0,
             rec_tempo = Some 0\<rparr>,
            \<lparr>rec_id = ''A'', rec_name = ''first'', rec_artists = ''X'', rec_popularity = 50,
             rec_release_year = Some 2000, rec_similarity_score = - 1,
             rec_danceability = Some 0, rec_energy = Some 0, rec_valence = Some 0,
             rec_tempo = Some 0\<rparr>]"
  "collect two_tracks 2 True None None [(0, - 1), (1, - 1)] [] {}
     = Inr [\<lparr>rec_id = ''A'', rec_name = ''first'', rec_artists = ''X'', rec_popularity = 50,
             rec_release_year = Some 2000, rec_similarity_score = - 1,
             rec_danceability = Some 0, rec_energy = Some 0, rec_valence = Some 0,
             rec_tempo = Some 0\<rparr>,
            \<lparr>rec_id = ''B'', rec_name = ''second'', rec_artists = ''Y'', rec_popularity = 60,
             rec_release_year = Some 2010, rec_similarity_score = - 1,
             rec_danceability = Some 0, rec_energy = Some 0, rec_valence = Some 0,
             rec_tempo = Some 0\<rparr>]"
  by (simp_all add: two_tracks_def popularity_rejects_def year_rejects_def
      make_recommendation_def get_value_def)

lemma four_tracks_build:
  "build_index four_tracks [''loudness'']
     = Inr (([[- 1], [1], [- 1], [1]], make_track_index four_tracks),
            \<lparr>sc_mean = [2], sc_scale = [1]\<rparr>)"
  by (simp add: build_index_def extract_features_def four_tracks_def nan_to_num_def
      column_names_def text_columns_def numeric_cell_def
      fit_transform_def scaler_transform_def column_def mean_def variance_def
      column_scale_def is_constant_feature_def float_eps_def power2_eq_square Let_def)

lemma four_tracks_id_to_idx:
  "id_to_idx (make_track_index four_tracks)
     = Some [(''A'', 0), (''B'', 1), (''C'', 2), (''D'', 3)]"
  by (simp add: make_track_index_def four_tracks_def enumerate_eq_zip upt_rec)

lemma four_tracks_init:
  "music_recommender_init
       \<lparr>feature_matrix_npy = Stored [[- 1], [1], [- 1], [1]],
        track_index_json = Stored (make_track_index four_tracks),
        model_config_json = Stored four_tracks_config\<rparr>
       four_tracks
     = Inr four_tracks_recommender"
  by (simp add: music_recommender_init_def load_index_def four_tracks_id_to_idx
      four_tracks_config_def four_tracks_recommender_def new_similarity_computer_def
      apply_weights_def weight_of_def get_default_weights_def broadcast2_def)

lemma four_tracks_recommender_fields:
  "id_to_idx (track_index four_tracks_recommender)
     = Some [(''A'', 0), (''B'', 1), (''C'', 2), (''D'', 3)]"
  "weighted_feature_matrix four_tracks_recommender = [[- 1], [1], [- 1], [1]]"
  "feature_matrix four_tracks_recommender = [[- 1], [1], [- 1], [1]]"
  "df four_tracks_recommender = four_tracks"
  by (simp_all add: four_tracks_recommender_def four_tracks_id_to_idx)

lemma four_tracks_top_k:
  "get_top_k_similar insertion_argsort [- 1] [[- 1], [1], [- 1], [1]] 4 (Some [0])
     = Inr ([2, 3, 1, 0], [1, - 1, - 1, - 1])"
  by (simp add: get_top_k_similar_def compute_similarity_def normalize_row_def l2_norm_def dot_def
      insertion_argsort_def py_take_def py_index_def upt_rec)

lemma four_tracks_collect:
  "collect four_tracks 2 True None None [(2, 1), (3, - 1), (1, - 1), (0, - 1)] [] {}
     = Inr [\<lparr>rec_id = ''C'', rec_name = ''third'', rec_artists = ''Z'', rec_popularity = 70,
             rec_release_year = None, rec_similarity_score = 1,
             rec_danceability = Some 0, rec_energy = Some 0, rec_valence = Some 0,
             rec_tempo = Some 0\<rparr>,
            \<lparr>rec_id = ''B'', rec_name = ''second'', rec_artists = ''Y'', rec_popularity = 60,
             rec_release_year = Some 2010, rec_similarity_score = - 1,
             rec_danceability = Some 0, rec_energy = Some 0, rec_valence = Some 0,
             rec_tempo = Some 0\<rparr>]"
  by (simp add: four_tracks_def popularity_rejects_def year_rejects_def
      make_recommendation_def get_value_def)

lemma four_tracks_recommendations:
  "get_recommendations insertion_argsort four_tracks_recommender ''A'' 2 True None None
     = Inr [\<lparr>rec_id = ''C'', rec_name = ''third'', rec_artists = ''Z'', rec_popularity = 70,
             rec_release_year = None, rec_similarity_score = 1,
             rec_danceability = Some 0, rec_energy = Some 0, rec_valence = Some 0,
             rec_tempo = Some 0\<rparr>,
            \<lparr>rec_id = ''B'', rec_name = ''second'', rec_artists = ''Y'', rec_popularity = 60,
             rec_release_year = Some 2010, rec_similarity_score = - 1,
             rec_danceability = Some 0, rec_energy = Some 0, rec_valence = Some 0,
             rec_tempo = Some 0\<rparr>]"
  by (simp add: get_recommendations_def four_tracks_recommender_fields
      four_tracks_top_k four_tracks_collect[unfolded One_nat_def] del: collect.simps)

subsection \<open>Recommendations by seed\<close>

text \<open>
  Claim C2 says that the seed track is never among its own recommendations. The seed's row
  is only given the score \<open>-1\<close> and the loop does not compare rows with the seed: on the
  two-track catalogue, built, saved and loaded as above, two recommendations are asked
  for the seed \<^verbatim>\<open>A\<close>, so \<open>k\<close> is the whole catalogue. Both rows have the score \<open>-1\<close>, and
  whichever of them the sort puts first, the seed \<^verbatim>\<open>A\<close> is one of the two recommendations.
\<close>

theorem seed_track_recommended:
  assumes "is_argsort argsort"
  shows "get_recommendations argsort two_tracks_recommender ''A'' 2 True None None
     = Inr [\<lparr>rec_id = ''B'', rec_name = ''second'', rec_artists = ''Y'', rec_popularity = 60,
             rec_release_year = Some 2010, rec_similarity_score = - 1,
             rec_danceability = Some 0, rec_energy = Some 0, rec_valence = Some 0,
             rec_tempo = Some 0\<rparr>,
            \<lparr>rec_id = ''A'', rec_name = ''first'', rec_artists = ''X'', rec_popularity = 50,
             rec_release_year = Some 2000, rec_similarity_score = - 1,
             rec_danceability = Some 0, rec_energy = Some 0, rec_valence = Some 0,
             rec_tempo = Some 0\<rparr>]
   \<or> get_recommendations argsort two_tracks_recommender ''A'' 2 True None None
     = Inr [\<lparr>rec_id = ''A'', rec_name = ''first'', rec_artists = ''X'', rec_popularity = 50,
             rec_release_year = Some 2000, rec_similarity_score = - 1,
             rec_danceability = Some 0, rec_energy = Some 0, rec_valence = Some 0,
             rec_tempo = Some 0\<rparr>,
            \<lparr>rec_id = ''B'', rec_name = ''second'', rec_artists = ''Y'', rec_popularity = 60,
             rec_release_year = Some 2010, rec_similarity_score = - 1,
             rec_danceability = Some 0, rec_energy = Some 0, rec_valence = Some 0,
             rec_tempo = Some 0\<rparr>]"
proof -
  consider "argsort [- 1, - 1] = [0, 1]" | "argsort [- 1, - 1] = [1, 0]"
    using is_argsort_two[OF assms, of "- 1" "- 1"] by blast
  then show ?thesis
  proof cases
    case 1
    then have "get_recommendations argsort two_tracks_recommender ''A'' 2 True None None
        = collect two_tracks 2 True None None [(1, - 1), (0, - 1)] [] {}"
      by (simp add: get_recommendations_def two_tracks_recommender_fields two_tracks_top_k
          py_take_def del: collect.simps)
    then show ?thesis by (simp only: two_tracks_collect(1)) simp
  next
    case 2
    then have "get_recommendations argsort two_tracks_recommender ''A'' 2 True None None
        = collect two_tracks 2 True None None [(0, - 1), (1, - 1)] [] {}"
      by (simp add: get_recommendations_def two_tracks_recommender_fields two_tracks_top_k
          py_take_def del: collect.simps)
    then show ?thesis by (simp only: two_tracks_collect(2)) simp
  qed
qed

theorem seed_track_recommended_witness:
  "get_recommendations insertion_argsort two_tracks_recommender ''A'' 2 True None None
     = Inr [\<lparr>rec_id = ''B'', rec_name = ''second'', rec_artists = ''Y'', rec_popularity = 60,
             rec_release_year = Some 2010, rec_similarity_score = - 1,
             rec_danceability = Some 0, rec_energy = Some 0, rec_valence = Some 0,
             rec_tempo = Some 0\<rparr>,
            \<lparr>rec_id = ''A'', rec_name = ''first'', rec_artists = ''X'', rec_popularity = 50,
             rec_release_year = Some 2000, rec_similarity_score = - 1,
             rec_danceability = Some 0, rec_energy = Some 0, rec_valence = Some 0,
             rec_tempo = Some 0\<rparr>]
   \<or> get_recommendations insertion_argsort two_tracks_recommender ''A'' 2 True None None
     = Inr [\<lparr>rec_id = ''A'', rec_name = ''first'', rec_artists = ''X'', rec_popularity = 50,
             rec_release_year = Some 2000, rec_similarity_score = - 1,
             rec_danceability = Some 0, rec_energy = Some 0, rec_valence = Some 0,
             rec_tempo = Some 0\<rparr>,
            \<lparr>rec_id = ''B'', rec_name = ''second'', rec_artists = ''Y'', rec_popularity = 60,
             rec_release_year = Some 2010, rec_similarity_score = - 1,
             rec_danceability = Some 0, rec_energy = Some 0, rec_valence = Some 0,
             rec_tempo = Some 0\<rparr>]"
  by (rule seed_track_recommended[OF is_argsort_insertion])

lemma collect_distinct_artists:
  assumes "collect table n True mp yr cs recs seen = Inr out"
    and "distinct (map rec_artists recs)" "set (map rec_artists recs) \<subseteq> seen"
  shows "distinct (map rec_artists out)"
  using assms
proof (induction cs arbitrary: recs seen)
  case Nil
  then show ?case by simp
next
  case (Cons c cs)
  obtain idx score where c: "c = (idx, score)" by (cases c)
  let ?td = "df_rows table ! idx"
  let ?new = "make_recommendation table ?td score"
  have art: "rec_artists ?new = r_artists ?td" by (simp add: make_recommendation_def)
  show ?case
  proof (cases "length (df_rows table) \<le> idx \<or> popularity_rejects mp ?td
                  \<or> year_rejects yr ?td \<or> r_artists ?td \<in> seen")
    case True
    then have "collect table n True mp yr cs recs seen = Inr out"
      using Cons.prems(1) by (auto simp: c split: if_splits)
    from Cons.IH[OF this Cons.prems(2,3)] show ?thesis .
  next
    case False
    then have fresh: "r_artists ?td \<notin> seen" by simp
    have d: "distinct (map rec_artists (recs @ [?new]))"
      using Cons.prems(2,3) fresh by (auto simp: art)
    have s: "set (map rec_artists (recs @ [?new])) \<subseteq> insert (r_artists ?td) seen"
      using Cons.prems(3) by (auto simp: art)
    show ?thesis
    proof (cases "n \<le> int (length recs) + 1")
      case True
      then have "out = recs @ [?new]" using Cons.prems(1) False by (simp add: c)
      then show ?thesis using d by simp
    next
      case n: False
      then have "collect table n True mp yr cs (recs @ [?new]) (insert (r_artists ?td) seen)
                   = Inr out"
        using Cons.prems(1) False by (simp add: c)
      from Cons.IH[OF this d s] show ?thesis .
    qed
  qed
qed

text \<open>
  Claim C8: with the diversity filter on, whenever the recommendations by seed return, no
  two of them carry the same artist string, whatever the sort.
\<close>

theorem diversity_filter_distinct_artists:
  assumes "get_recommendations argsort self track_id n True mp yr = Inr recs"
  shows "distinct (map rec_artists recs)"
proof -
  from assms obtain cs where "collect (df self) n True mp yr cs [] {} = Inr recs"
    by (auto simp: get_recommendations_def split: option.splits if_splits sum.splits)
  then show ?thesis by (rule collect_distinct_artists) simp_all
qed

theorem diversity_filter_distinct_artists_witness:
  "distinct (map rec_artists
     [\<lparr>rec_id = ''C'', rec_name = ''third'', rec_artists = ''Z'', rec_popularity = 70,
       rec_release_year = None, rec_similarity_score = 1,
       rec_danceability = Some 0, rec_energy = Some 0, rec_valence = Some 0,
       rec_tempo = Some 0\<rparr>,
      \<lparr>rec_id = ''B'', rec_name = ''second'', rec_artists = ''Y'', rec_popularity = 60,
       rec_release_year = Some 2010, rec_similarity_score = - 1,
       rec_danceability = Some 0, rec_energy = Some 0, rec_valence = Some 0,
       rec_tempo = Some 0\<rparr>])"
  by (rule diversity_filter_distinct_artists[OF four_tracks_recommendations])

lemma popularity_rejects_zero: "popularity_rejects (Some 0) td = popularity_rejects None td"
  by (simp add: popularity_rejects_def)

lemma collect_min_popularity_zero:
  "collect table n dv (Some 0) yr cs recs seen = collect table n dv None yr cs recs seen"
proof (induction cs arbitrary: recs seen)
  case Nil
  show ?case by simp
next
  case (Cons c cs)
  obtain idx score where c: "c = (idx, score)" by (cases c)
  show ?case
    unfolding c collect.simps popularity_rejects_zero Cons.IH ..
qed

text \<open>
  Claim C10: a minimum popularity of \<open>0\<close> filters nothing; the recommendations by seed are
  those of no minimum popularity at all, for every recommender, every sort and every
  other argument.
\<close>

theorem min_popularity_zero_same_as_none:
  "get_recommendations argsort self track_id n dv (Some 0) yr
     = get_recommendations argsort self track_id n dv None yr"
  unfolding get_recommendations_def collect_min_popularity_zero by (rule refl)

subsection \<open>Recommendations by features\<close>

text \<open>
  Claim C3 says that a feature column other than the named ones is filled with the median
  of its raw values. The source takes the median of the loaded matrix, which holds the
  standardized values, and standardizes it once more. On the two-track catalogue the raw
  \<^verbatim>\<open>loudness\<close> values are \<open>1\<close> and \<open>3\<close>, of median \<open>2\<close>, which standardizes to \<open>0\<close>;
  the source's query holds \<open>0\<close>, the median of \<open>-1\<close> and \<open>1\<close>, which standardizes to
  \<open>-2\<close>.
\<close>

theorem by_features_median_of_standardized:
  "extract_features two_tracks [''loudness''] = Inr [[1], [3]]
   \<and> median (column [[1], [3]] 0) = 2
   \<and> feature_matrix two_tracks_recommender = [[- 1], [1]]
   \<and> feature_columns (config two_tracks_recommender) = Some [''loudness'']
   \<and> synthetic_query (feature_matrix two_tracks_recommender) [''loudness''] 1 1 1 200 = Inr [0]
   \<and> standardize_query (scaler two_tracks_recommender) [0] = Inr [- 2]
   \<and> standardize_query (scaler two_tracks_recommender) [2] = Inr [0]"
  by (simp add: two_tracks_extract median_def column_def two_tracks_recommender_fields
      synthetic_query_def query_entry_def enumerate_eq_zip
      standardize_query_def broadcast2_def)

end
